theory Spec2Isabelle
  imports Main
begin

section \<open>The Arrakis MCP adapter: data model\<close>

text \<open>
  The adapter (\<^verbatim>\<open>arrakis_mcp_server.py\<close>) registers eleven functions with the protocol
  runtime. Each one is a \<^verbatim>\<open>try\<close> suite that calls into the sandbox client library
  and formats the answer, followed by \<^verbatim>\<open>except Exception as e\<close>, which formats
  \<^verbatim>\<open>str(e)\<close> behind a fixed label.

  The client library and \<^verbatim>\<open>json.dumps\<close> are not part of the repository. They are
  parameters of the model (the record \<open>env\<close>): every theorem below holds for every
  behaviour of the library, deterministic in the state of the outside world \<open>'w\<close>.
\<close>

subsection \<open>Python values\<close>

text \<open>
  \<open>exn\<close> is an instance of Python's class \<^verbatim>\<open>Exception\<close>, carrying the text that
  \<^verbatim>\<open>str(e)\<close> returns. This is the class that \<^verbatim>\<open>except Exception\<close> handles and the
  class that the client library's failures belong to; interpreter-level exits
  (\<^verbatim>\<open>KeyboardInterrupt\<close>, \<^verbatim>\<open>SystemExit\<close>) are not values of this type.
\<close>

datatype exn = Exception string

fun str :: "exn \<Rightarrow> string" where
  "str (Exception msg) = msg"

text \<open>The values an info record is built from, handed to \<^verbatim>\<open>json.dumps\<close> unexamined.\<close>

datatype pyval =
    PyNone
  | PyBool bool
  | PyInt int
  | PyStr string
  | PyList "pyval list"
  | PyDict "(string \<times> pyval) list"

text \<open>
  A record of the client library (\<^verbatim>\<open>Dict[str, str]\<close>): the result of
  \<^verbatim>\<open>run_cmd\<close>, an element of the result of \<^verbatim>\<open>download_files\<close>, an element of the
  argument of \<^verbatim>\<open>upload_files\<close>. Keys are looked up from the front.
\<close>

type_synonym dict = "(string \<times> string) list"

definition dict_get :: "dict \<Rightarrow> string \<Rightarrow> string \<Rightarrow> string" where
  \<comment> \<open>\<^verbatim>\<open>d.get(k, default)\<close>\<close>
  "dict_get d k dflt = (case map_of d k of None \<Rightarrow> dflt | Some v \<Rightarrow> v)"

definition dict_in :: "string \<Rightarrow> dict \<Rightarrow> bool" where
  \<comment> \<open>\<^verbatim>\<open>k in d\<close>\<close>
  "dict_in k d = (case map_of d k of None \<Rightarrow> False | Some v \<Rightarrow> True)"

definition truthy :: "string \<Rightarrow> bool" where
  \<comment> \<open>the truth value of a \<^verbatim>\<open>str\<close>: false exactly for the empty string\<close>
  "truthy v = (v \<noteq> [])"

subsection \<open>Handles of the client library\<close>

datatype APIClient = APIClient string

record SandboxManager =
  api :: APIClient

record Sandbox =
  sb_api :: APIClient
  sb_name :: string

definition new_Sandbox :: "APIClient \<Rightarrow> string \<Rightarrow> Sandbox" where
  \<comment> \<open>\<^verbatim>\<open>Sandbox(api, name)\<close>: the constructor stores its two arguments\<close>
  "new_Sandbox a n = \<lparr>sb_api = a, sb_name = n\<rparr>"

subsection \<open>The outside world\<close>

text \<open>
  Each method of the client library takes the state of the outside world and returns
  either a raised exception or a value, together with the new state of the world.
  \<open>json_dumps\<close> is \<^verbatim>\<open>json.dumps(_, indent=2)\<close>.
\<close>

record 'w env =
  SandboxManager_list_all :: "SandboxManager \<Rightarrow> 'w \<Rightarrow> (exn + Sandbox list) \<times> 'w"
  SandboxManager_start_sandbox :: "SandboxManager \<Rightarrow> string \<Rightarrow> 'w \<Rightarrow> (exn + Sandbox) \<times> 'w"
  SandboxManager_restore :: "SandboxManager \<Rightarrow> string \<Rightarrow> string \<Rightarrow> 'w \<Rightarrow> (exn + Sandbox) \<times> 'w"
  SandboxManager_destroy_all :: "SandboxManager \<Rightarrow> 'w \<Rightarrow> (exn + unit) \<times> 'w"
  Sandbox_info :: "Sandbox \<Rightarrow> 'w \<Rightarrow> (exn + pyval) \<times> 'w"
  Sandbox_snapshot :: "Sandbox \<Rightarrow> string \<Rightarrow> 'w \<Rightarrow> (exn + string) \<times> 'w"
  Sandbox_run_cmd :: "Sandbox \<Rightarrow> string \<Rightarrow> 'w \<Rightarrow> (exn + dict) \<times> 'w"
  Sandbox_upload_files :: "Sandbox \<Rightarrow> dict list \<Rightarrow> 'w \<Rightarrow> (exn + unit) \<times> 'w"
  Sandbox_download_files :: "Sandbox \<Rightarrow> string list \<Rightarrow> 'w \<Rightarrow> (exn + dict list) \<times> 'w"
  Sandbox_destroy :: "Sandbox \<Rightarrow> 'w \<Rightarrow> (exn + unit) \<times> 'w"
  Sandbox_update_state :: "Sandbox \<Rightarrow> string \<Rightarrow> 'w \<Rightarrow> (exn + unit) \<times> 'w"
  json_dumps :: "pyval \<Rightarrow> exn + string"

subsection \<open>Program state and control flow\<close>

text \<open>
  The module has one global that outlives a call: \<^verbatim>\<open>sandbox_manager\<close>, \<^verbatim>\<open>None\<close> when
  the module is loaded and assigned once in the main block. A computation takes the
  state and returns a raised exception or a value, and the state after it.
\<close>

record 'w state =
  sandbox_manager :: "SandboxManager option"
  world :: 'w

type_synonym ('w, 'a) prog = "'w state \<Rightarrow> (exn + 'a) \<times> 'w state"

definition ret :: "'a \<Rightarrow> ('w, 'a) prog" where
  "ret v s = (Inr v, s)"

definition bnd :: "('w, 'a) prog \<Rightarrow> ('a \<Rightarrow> ('w, 'b) prog) \<Rightarrow> ('w, 'b) prog" where
  \<comment> \<open>one statement after another: an exception skips the rest\<close>
  "bnd m f s = (case m s of (Inl e, s') \<Rightarrow> (Inl e, s') | (Inr v, s') \<Rightarrow> f v s')"

definition try_except :: "('w, 'a) prog \<Rightarrow> (exn \<Rightarrow> ('w, 'a) prog) \<Rightarrow> ('w, 'a) prog" where
  \<comment> \<open>\<^verbatim>\<open>try: m  except Exception as e: h e\<close>\<close>
  "try_except m h s = (case m s of (Inl e, s') \<Rightarrow> h e s' | (Inr v, s') \<Rightarrow> (Inr v, s'))"

definition call :: "('w \<Rightarrow> (exn + 'a) \<times> 'w) \<Rightarrow> ('w, 'a) prog" where
  \<comment> \<open>a call into the client library acts on the outside world only\<close>
  "call f s = (case f (world s) of (r, w') \<Rightarrow> (r, s\<lparr>world := w'\<rparr>))"

definition pure_call :: "exn + 'a \<Rightarrow> ('w, 'a) prog" where
  \<comment> \<open>a library function that touches no state (\<^verbatim>\<open>json.dumps\<close>)\<close>
  "pure_call r s = (r, s)"

definition no_attribute :: "string \<Rightarrow> string" where
  \<comment> \<open>the text of the \<^verbatim>\<open>AttributeError\<close> raised by an attribute access on \<^verbatim>\<open>None\<close>\<close>
  "no_attribute a =
     [CHR 0x27] @ ''NoneType'' @ [CHR 0x27] @ '' object has no attribute '' @ [CHR 0x27] @ a @ [CHR 0x27]"

definition sandbox_manager_dot :: "string \<Rightarrow> ('w, SandboxManager) prog" where
  \<comment> \<open>reading the global and taking the attribute or method \<open>a\<close> of it\<close>
  "sandbox_manager_dot a s =
     (case sandbox_manager s of
        None \<Rightarrow> (Inl (Exception (no_attribute a)), s)
      | Some m \<Rightarrow> (Inr m, s))"

fun comprehension :: "('a \<Rightarrow> ('w, 'b) prog) \<Rightarrow> 'a list \<Rightarrow> ('w, 'b list) prog" where
  \<comment> \<open>\<^verbatim>\<open>[f(x) for x in xs]\<close>, left to right, stopping at the first exception\<close>
  "comprehension f [] = ret []"
| "comprehension f (x # xs) = bnd (f x) (\<lambda>y. bnd (comprehension f xs) (\<lambda>ys. ret (y # ys)))"

definition index0 :: "'a list \<Rightarrow> ('w, 'a) prog" where
  \<comment> \<open>\<^verbatim>\<open>xs[0]\<close>\<close>
  "index0 xs =
     (case xs of
        [] \<Rightarrow> (\<lambda>s. (Inl (Exception ''list index out of range''), s))
      | x # rest \<Rightarrow> ret x)"

definition subscript :: "dict \<Rightarrow> string \<Rightarrow> ('w, string) prog" where
  \<comment> \<open>\<^verbatim>\<open>d[k]\<close>; the text of a \<^verbatim>\<open>KeyError\<close> is the key in quotes\<close>
  "subscript d k =
     (case map_of d k of
        None \<Rightarrow> (\<lambda>s. (Inl (Exception ([CHR 0x27] @ k @ [CHR 0x27])), s))
      | Some v \<Rightarrow> ret v)"

abbreviation NL :: string where
  "NL \<equiv> [CHR 0x0A]"

section \<open>The eleven operations\<close>

text \<open>
  For every function \<open>f\<close> of the source, \<open>f_try\<close> is its \<^verbatim>\<open>try\<close> suite and \<open>f\<close> is
  the whole function: the suite under its \<^verbatim>\<open>except Exception\<close> handler.
\<close>

text \<open>
  Lines 39 to 46 of the source (docstring left out):
  \<^verbatim>\<open>
  def get_vms() -> str:
      try:
          vms = sandbox_manager.list_all()
          vm_info = [vm.info() for vm in vms]
          return json.dumps(vm_info, indent=2)
      except Exception as e:
          return f"Error listing VMs: {str(e)}"
  \<close>
\<close>

definition get_vms_try :: "'w env \<Rightarrow> ('w, string) prog" where
  "get_vms_try E =
     bnd (sandbox_manager_dot ''list_all'') (\<lambda>m.
     bnd (call (SandboxManager_list_all E m)) (\<lambda>vms.
     bnd (comprehension (\<lambda>vm. call (Sandbox_info E vm)) vms) (\<lambda>vm_info.
     pure_call (json_dumps E (PyList vm_info)))))"

definition get_vms :: "'w env \<Rightarrow> ('w, string) prog" where
  "get_vms E = try_except (get_vms_try E) (\<lambda>e. ret (''Error listing VMs: '' @ str e))"

text \<open>
  Lines 50 to 56 of the source (docstring left out):
  \<^verbatim>\<open>
  def get_vm_info(vm_name: str) -> str:
      try:
          sandbox = Sandbox(sandbox_manager._api, vm_name)
          return json.dumps(sandbox.info(), indent=2)
      except Exception as e:
          return f"Error retrieving VM information: {str(e)}"
  \<close>
\<close>

definition get_vm_info_try :: "'w env \<Rightarrow> string \<Rightarrow> ('w, string) prog" where
  "get_vm_info_try E vm_name =
     bnd (sandbox_manager_dot ''_api'') (\<lambda>m.
     let sandbox = new_Sandbox (api m) vm_name in
     bnd (call (Sandbox_info E sandbox)) (\<lambda>info.
     pure_call (json_dumps E info)))"

definition get_vm_info :: "'w env \<Rightarrow> string \<Rightarrow> ('w, string) prog" where
  "get_vm_info E vm_name =
     try_except (get_vm_info_try E vm_name)
       (\<lambda>e. ret (''Error retrieving VM information: '' @ str e))"

text \<open>
  Lines 62 to 76 of the source (docstring left out):
  \<^verbatim>\<open>
  def start_sandbox(name: str) -> str:
      try:
          sandbox = sandbox_manager.start_sandbox(name)
          return json.dumps(sandbox.info(), indent=2)
      except Exception as e:
          return f"Error starting sandbox: {str(e)}"
  \<close>
\<close>

definition start_sandbox_try :: "'w env \<Rightarrow> string \<Rightarrow> ('w, string) prog" where
  "start_sandbox_try E name =
     bnd (sandbox_manager_dot ''start_sandbox'') (\<lambda>m.
     bnd (call (SandboxManager_start_sandbox E m name)) (\<lambda>sandbox.
     bnd (call (Sandbox_info E sandbox)) (\<lambda>info.
     pure_call (json_dumps E info))))"

definition start_sandbox :: "'w env \<Rightarrow> string \<Rightarrow> ('w, string) prog" where
  "start_sandbox E name =
     try_except (start_sandbox_try E name) (\<lambda>e. ret (''Error starting sandbox: '' @ str e))"

text \<open>
  Lines 80 to 95 of the source (docstring left out):
  \<^verbatim>\<open>
  def restore_snapshot(vm_name: str, snapshot_id: str) -> str:
      try:
          sandbox = sandbox_manager.restore(vm_name, snapshot_id)
          return json.dumps(sandbox.info(), indent=2)
      except Exception as e:
          return f"Error restoring snapshot: {str(e)}"
  \<close>
\<close>

definition restore_snapshot_try :: "'w env \<Rightarrow> string \<Rightarrow> string \<Rightarrow> ('w, string) prog" where
  "restore_snapshot_try E vm_name snapshot_id =
     bnd (sandbox_manager_dot ''restore'') (\<lambda>m.
     bnd (call (SandboxManager_restore E m vm_name snapshot_id)) (\<lambda>sandbox.
     bnd (call (Sandbox_info E sandbox)) (\<lambda>info.
     pure_call (json_dumps E info))))"

definition restore_snapshot :: "'w env \<Rightarrow> string \<Rightarrow> string \<Rightarrow> ('w, string) prog" where
  "restore_snapshot E vm_name snapshot_id =
     try_except (restore_snapshot_try E vm_name snapshot_id)
       (\<lambda>e. ret (''Error restoring snapshot: '' @ str e))"

text \<open>
  Lines 99 to 115 of the source (docstring left out):
  \<^verbatim>\<open>
  def snapshot(vm_name: str, snapshot_id: str = "") -> str:
      try:
          sandbox = Sandbox(sandbox_manager._api, vm_name)
          result = sandbox.snapshot(snapshot_id)
          return f"Created snapshot with ID: {result}"
      except Exception as e:
          return f"Error creating snapshot: {str(e)}"
  \<close>
\<close>

definition snapshot_try :: "'w env \<Rightarrow> string \<Rightarrow> string \<Rightarrow> ('w, string) prog" where
  "snapshot_try E vm_name snapshot_id =
     bnd (sandbox_manager_dot ''_api'') (\<lambda>m.
     let sandbox = new_Sandbox (api m) vm_name in
     bnd (call (Sandbox_snapshot E sandbox snapshot_id)) (\<lambda>result.
     ret (''Created snapshot with ID: '' @ result)))"

definition snapshot :: "'w env \<Rightarrow> string \<Rightarrow> string \<Rightarrow> ('w, string) prog" where
  "snapshot E vm_name snapshot_id =
     try_except (snapshot_try E vm_name snapshot_id)
       (\<lambda>e. ret (''Error creating snapshot: '' @ str e))"

text \<open>
  Lines 119 to 140 of the source (docstring left out):
  \<^verbatim>\<open>
  def run_command(vm_name: str, cmd: str) -> str:
      try:
          sandbox = Sandbox(sandbox_manager._api, vm_name)
          result = sandbox.run_cmd(cmd)
          output = result.get("output", "")
          error = result.get("error", "")
          if error:
              return f"Command output:\n{output}\n\nError:\n{error}"
          return f"Command output:\n{output}"
      except Exception as e:
          return f"Error running command: {str(e)}"
  \<close>
\<close>

definition run_command_try :: "'w env \<Rightarrow> string \<Rightarrow> string \<Rightarrow> ('w, string) prog" where
  "run_command_try E vm_name cmd =
     bnd (sandbox_manager_dot ''_api'') (\<lambda>m.
     let sandbox = new_Sandbox (api m) vm_name in
     bnd (call (Sandbox_run_cmd E sandbox cmd)) (\<lambda>result.
     let output = dict_get result ''output'' [];
         error = dict_get result ''error'' []
     in if truthy error
        then ret (''Command output:'' @ NL @ output @ NL @ NL @ ''Error:'' @ NL @ error)
        else ret (''Command output:'' @ NL @ output)))"

definition run_command :: "'w env \<Rightarrow> string \<Rightarrow> string \<Rightarrow> ('w, string) prog" where
  "run_command E vm_name cmd =
     try_except (run_command_try E vm_name cmd)
       (\<lambda>e. ret (''Error running command: '' @ str e))"

text \<open>
  Lines 144 to 161 of the source (docstring left out):
  \<^verbatim>\<open>
  def upload_file(vm_name: str, path: str, content: str) -> str:
      try:
          sandbox = Sandbox(sandbox_manager._api, vm_name)
          sandbox.upload_files([{"path": path, "content": content}])
          return f"Successfully uploaded file to {path}"
      except Exception as e:
          return f"Error uploading file: {str(e)}"
  \<close>
\<close>

definition upload_file_try :: "'w env \<Rightarrow> string \<Rightarrow> string \<Rightarrow> string \<Rightarrow> ('w, string) prog" where
  "upload_file_try E vm_name path content =
     bnd (sandbox_manager_dot ''_api'') (\<lambda>m.
     let sandbox = new_Sandbox (api m) vm_name in
     bnd (call (Sandbox_upload_files E sandbox [[(''path'', path), (''content'', content)]])) (\<lambda>u.
     ret (''Successfully uploaded file to '' @ path)))"

definition upload_file :: "'w env \<Rightarrow> string \<Rightarrow> string \<Rightarrow> string \<Rightarrow> ('w, string) prog" where
  "upload_file E vm_name path content =
     try_except (upload_file_try E vm_name path content)
       (\<lambda>e. ret (''Error uploading file: '' @ str e))"

text \<open>
  Lines 165 to 189 of the source (docstring left out):
  \<^verbatim>\<open>
  def download_file(vm_name: str, path: str) -> str:
      try:
          sandbox = Sandbox(sandbox_manager._api, vm_name)
          result = sandbox.download_files([path])
          if not result:
              return f"No file found at path: {path}"
          file_data = result[0]
          if "error" in file_data and file_data["error"]:
              return f"Error downloading file: {file_data['error']}"
          return f"File content:\n{file_data.get('content', '')}"
      except Exception as e:
          return f"Error downloading file: {str(e)}"
  \<close>
\<close>

definition download_file_try :: "'w env \<Rightarrow> string \<Rightarrow> string \<Rightarrow> ('w, string) prog" where
  "download_file_try E vm_name path =
     bnd (sandbox_manager_dot ''_api'') (\<lambda>m.
     let sandbox = new_Sandbox (api m) vm_name in
     bnd (call (Sandbox_download_files E sandbox [path])) (\<lambda>result.
     if result = [] then ret (''No file found at path: '' @ path)
     else
       bnd (index0 result) (\<lambda>file_data.
       bnd (if dict_in ''error'' file_data
            then bnd (subscript file_data ''error'') (\<lambda>v. ret (truthy v))
            else ret False) (\<lambda>has_error.
       if has_error
       then bnd (subscript file_data ''error'') (\<lambda>v. ret (''Error downloading file: '' @ v))
       else ret (''File content:'' @ NL @ dict_get file_data ''content'' [])))))"

definition download_file :: "'w env \<Rightarrow> string \<Rightarrow> string \<Rightarrow> ('w, string) prog" where
  "download_file E vm_name path =
     try_except (download_file_try E vm_name path)
       (\<lambda>e. ret (''Error downloading file: '' @ str e))"

text \<open>
  Lines 193 to 208 of the source (docstring left out):
  \<^verbatim>\<open>
  def destroy_vm(vm_name: str) -> str:
      try:
          sandbox = Sandbox(sandbox_manager._api, vm_name)
          sandbox.destroy()
          return f"Successfully destroyed VM {vm_name}"
      except Exception as e:
          return f"Error destroying VM: {str(e)}"
  \<close>
\<close>

definition destroy_vm_try :: "'w env \<Rightarrow> string \<Rightarrow> ('w, string) prog" where
  "destroy_vm_try E vm_name =
     bnd (sandbox_manager_dot ''_api'') (\<lambda>m.
     let sandbox = new_Sandbox (api m) vm_name in
     bnd (call (Sandbox_destroy E sandbox)) (\<lambda>u.
     ret (''Successfully destroyed VM '' @ vm_name)))"

definition destroy_vm :: "'w env \<Rightarrow> string \<Rightarrow> ('w, string) prog" where
  "destroy_vm E vm_name =
     try_except (destroy_vm_try E vm_name) (\<lambda>e. ret (''Error destroying VM: '' @ str e))"

text \<open>
  Lines 212 to 223 of the source (docstring left out):
  \<^verbatim>\<open>
  def destroy_all_vms() -> str:
      try:
          sandbox_manager.destroy_all()
          return "Successfully destroyed all VMs"
      except Exception as e:
          return f"Error destroying VMs: {str(e)}"
  \<close>
\<close>

definition destroy_all_vms_try :: "'w env \<Rightarrow> ('w, string) prog" where
  "destroy_all_vms_try E =
     bnd (sandbox_manager_dot ''destroy_all'') (\<lambda>m.
     bnd (call (SandboxManager_destroy_all E m)) (\<lambda>u.
     ret ''Successfully destroyed all VMs''))"

definition destroy_all_vms :: "'w env \<Rightarrow> ('w, string) prog" where
  "destroy_all_vms E =
     try_except (destroy_all_vms_try E) (\<lambda>e. ret (''Error destroying VMs: '' @ str e))"

text \<open>
  Lines 227 to 243 of the source (docstring left out):
  \<^verbatim>\<open>
  def update_vm_state(vm_name: str, status: str) -> str:
      try:
          sandbox = Sandbox(sandbox_manager._api, vm_name)
          sandbox.update_state(status)
          return f"Successfully updated VM {vm_name} state to {status}"
      except Exception as e:
          return f"Error updating VM state: {str(e)}"
  \<close>
\<close>

definition update_vm_state_try :: "'w env \<Rightarrow> string \<Rightarrow> string \<Rightarrow> ('w, string) prog" where
  "update_vm_state_try E vm_name status =
     bnd (sandbox_manager_dot ''_api'') (\<lambda>m.
     let sandbox = new_Sandbox (api m) vm_name in
     bnd (call (Sandbox_update_state E sandbox status)) (\<lambda>u.
     ret (''Successfully updated VM '' @ vm_name @ '' state to '' @ status)))"

definition update_vm_state :: "'w env \<Rightarrow> string \<Rightarrow> string \<Rightarrow> ('w, string) prog" where
  "update_vm_state E vm_name status =
     try_except (update_vm_state_try E vm_name status)
       (\<lambda>e. ret (''Error updating VM state: '' @ str e))"

section \<open>The protocol surface\<close>

text \<open>
  A request names one of the registered functions and carries its arguments;
  \<open>invoke\<close> is the protocol runtime calling the function registered under that name.
  \<open>try_suite\<close> is the same dispatch onto the \<^verbatim>\<open>try\<close> suites alone.
\<close>

datatype request =
    Get_vms
  | Get_vm_info string
  | Start_sandbox string
  | Restore_snapshot string string
  | Snapshot string string
  | Run_command string string
  | Upload_file string string string
  | Download_file string string
  | Destroy_vm string
  | Destroy_all_vms
  | Update_vm_state string string

fun invoke :: "'w env \<Rightarrow> request \<Rightarrow> ('w, string) prog" where
  "invoke E Get_vms = get_vms E"
| "invoke E (Get_vm_info vm_name) = get_vm_info E vm_name"
| "invoke E (Start_sandbox name) = start_sandbox E name"
| "invoke E (Restore_snapshot vm_name snapshot_id) = restore_snapshot E vm_name snapshot_id"
| "invoke E (Snapshot vm_name snapshot_id) = snapshot E vm_name snapshot_id"
| "invoke E (Run_command vm_name cmd) = run_command E vm_name cmd"
| "invoke E (Upload_file vm_name path content) = upload_file E vm_name path content"
| "invoke E (Download_file vm_name path) = download_file E vm_name path"
| "invoke E (Destroy_vm vm_name) = destroy_vm E vm_name"
| "invoke E Destroy_all_vms = destroy_all_vms E"
| "invoke E (Update_vm_state vm_name status) = update_vm_state E vm_name status"

fun try_suite :: "'w env \<Rightarrow> request \<Rightarrow> ('w, string) prog" where
  "try_suite E Get_vms = get_vms_try E"
| "try_suite E (Get_vm_info vm_name) = get_vm_info_try E vm_name"
| "try_suite E (Start_sandbox name) = start_sandbox_try E name"
| "try_suite E (Restore_snapshot vm_name snapshot_id) = restore_snapshot_try E vm_name snapshot_id"
| "try_suite E (Snapshot vm_name snapshot_id) = snapshot_try E vm_name snapshot_id"
| "try_suite E (Run_command vm_name cmd) = run_command_try E vm_name cmd"
| "try_suite E (Upload_file vm_name path content) = upload_file_try E vm_name path content"
| "try_suite E (Download_file vm_name path) = download_file_try E vm_name path"
| "try_suite E (Destroy_vm vm_name) = destroy_vm_try E vm_name"
| "try_suite E Destroy_all_vms = destroy_all_vms_try E"
| "try_suite E (Update_vm_state vm_name status) = update_vm_state_try E vm_name status"

text \<open>The fixed failure label of each operation, as the specification tabulates them.\<close>

fun error_prefix :: "request \<Rightarrow> string" where
  "error_prefix Get_vms = ''Error listing VMs: ''"
| "error_prefix (Get_vm_info vm_name) = ''Error retrieving VM information: ''"
| "error_prefix (Start_sandbox name) = ''Error starting sandbox: ''"
| "error_prefix (Restore_snapshot vm_name snapshot_id) = ''Error restoring snapshot: ''"
| "error_prefix (Snapshot vm_name snapshot_id) = ''Error creating snapshot: ''"
| "error_prefix (Run_command vm_name cmd) = ''Error running command: ''"
| "error_prefix (Upload_file vm_name path content) = ''Error uploading file: ''"
| "error_prefix (Download_file vm_name path) = ''Error downloading file: ''"
| "error_prefix (Destroy_vm vm_name) = ''Error destroying VM: ''"
| "error_prefix Destroy_all_vms = ''Error destroying VMs: ''"
| "error_prefix (Update_vm_state vm_name status) = ''Error updating VM state: ''"

text \<open>The name argument of the seven operations that act on one VM through a handle.\<close>

fun vm_of :: "request \<Rightarrow> string option" where
  "vm_of (Get_vm_info vm_name) = Some vm_name"
| "vm_of (Snapshot vm_name snapshot_id) = Some vm_name"
| "vm_of (Run_command vm_name cmd) = Some vm_name"
| "vm_of (Upload_file vm_name path content) = Some vm_name"
| "vm_of (Download_file vm_name path) = Some vm_name"
| "vm_of (Destroy_vm vm_name) = Some vm_name"
| "vm_of (Update_vm_state vm_name status) = Some vm_name"
| "vm_of Get_vms = None"
| "vm_of (Start_sandbox name) = None"
| "vm_of (Restore_snapshot vm_name snapshot_id) = None"
| "vm_of Destroy_all_vms = None"

section \<open>Observing the calls that reach the client library\<close>

text \<open>
  \<open>spy E\<close> answers every call as \<open>E\<close> does and appends the call, with its receiver and
  its arguments, to a log kept beside the world. A statement about the log of an
  operation run against \<open>spy E\<close> is a statement about what the operation forwards.
\<close>

datatype client_call =
    Call_list_all SandboxManager
  | Call_start_sandbox SandboxManager string
  | Call_restore SandboxManager string string
  | Call_destroy_all SandboxManager
  | Call_info Sandbox
  | Call_snapshot Sandbox string
  | Call_run_cmd Sandbox string
  | Call_upload_files Sandbox "dict list"
  | Call_download_files Sandbox "string list"
  | Call_destroy Sandbox
  | Call_update_state Sandbox string

fun handle_of :: "client_call \<Rightarrow> Sandbox option" where
  "handle_of (Call_info sb) = Some sb"
| "handle_of (Call_snapshot sb snapshot_id) = Some sb"
| "handle_of (Call_run_cmd sb cmd) = Some sb"
| "handle_of (Call_upload_files sb files) = Some sb"
| "handle_of (Call_download_files sb paths) = Some sb"
| "handle_of (Call_destroy sb) = Some sb"
| "handle_of (Call_update_state sb status) = Some sb"
| "handle_of (Call_list_all m) = None"
| "handle_of (Call_start_sandbox m name) = None"
| "handle_of (Call_restore m name snapshot_id) = None"
| "handle_of (Call_destroy_all m) = None"

definition logged ::
  "client_call \<Rightarrow> ('w \<Rightarrow> (exn + 'a) \<times> 'w) \<Rightarrow> 'w \<times> client_call list \<Rightarrow> (exn + 'a) \<times> ('w \<times> client_call list)" where
  "logged c f wl = (case f (fst wl) of (r, w') \<Rightarrow> (r, (w', snd wl @ [c])))"

definition spy :: "'w env \<Rightarrow> ('w \<times> client_call list) env" where
  "spy E =
     \<lparr> SandboxManager_list_all = (\<lambda>m. logged (Call_list_all m) (SandboxManager_list_all E m)),
       SandboxManager_start_sandbox =
         (\<lambda>m name. logged (Call_start_sandbox m name) (SandboxManager_start_sandbox E m name)),
       SandboxManager_restore =
         (\<lambda>m name sid. logged (Call_restore m name sid) (SandboxManager_restore E m name sid)),
       SandboxManager_destroy_all =
         (\<lambda>m. logged (Call_destroy_all m) (SandboxManager_destroy_all E m)),
       Sandbox_info = (\<lambda>sb. logged (Call_info sb) (Sandbox_info E sb)),
       Sandbox_snapshot = (\<lambda>sb sid. logged (Call_snapshot sb sid) (Sandbox_snapshot E sb sid)),
       Sandbox_run_cmd = (\<lambda>sb cmd. logged (Call_run_cmd sb cmd) (Sandbox_run_cmd E sb cmd)),
       Sandbox_upload_files =
         (\<lambda>sb files. logged (Call_upload_files sb files) (Sandbox_upload_files E sb files)),
       Sandbox_download_files =
         (\<lambda>sb paths. logged (Call_download_files sb paths) (Sandbox_download_files E sb paths)),
       Sandbox_destroy = (\<lambda>sb. logged (Call_destroy sb) (Sandbox_destroy E sb)),
       Sandbox_update_state =
         (\<lambda>sb status. logged (Call_update_state sb status) (Sandbox_update_state E sb status)),
       json_dumps = json_dumps E \<rparr>"

section \<open>A failing call into the service\<close>

text \<open>
  \<open>service_failure E m r w\<close> says, in terms of the service \<open>E\<close> alone, whether a call into
  the client library raises while the request \<open>r\<close> is served from the world \<open>w\<close> with the
  manager \<open>m\<close>: it follows the calls the operation makes, in their order and on their
  arguments, and gives the first exception raised together with the world that call
  leaves, or \<open>None\<close> when every call returns. \<open>get_vms\<close> calls \<^verbatim>\<open>list_all\<close> and then
  \<^verbatim>\<open>info\<close> on each handle returned; \<open>start_sandbox\<close> and \<open>restore_snapshot\<close> call the
  manager and then \<^verbatim>\<open>info\<close> on the handle returned; every other operation makes one call.
\<close>

definition failure_of :: "(exn + 'a) \<times> 'w \<Rightarrow> (exn \<times> 'w) option" where
  "failure_of answer = (case answer of (Inl e, w') \<Rightarrow> Some (e, w') | (Inr v, w') \<Rightarrow> None)"

fun infos_failure :: "'w env \<Rightarrow> Sandbox list \<Rightarrow> 'w \<Rightarrow> (exn \<times> 'w) option" where
  "infos_failure E [] w = None"
| "infos_failure E (vm # vms) w =
     (case Sandbox_info E vm w of
        (Inl e, w') \<Rightarrow> Some (e, w')
      | (Inr info, w') \<Rightarrow> infos_failure E vms w')"

definition info_failure_after :: "'w env \<Rightarrow> (exn + Sandbox) \<times> 'w \<Rightarrow> (exn \<times> 'w) option" where
  "info_failure_after E answer =
     (case answer of
        (Inl e, w') \<Rightarrow> Some (e, w')
      | (Inr sandbox, w') \<Rightarrow> failure_of (Sandbox_info E sandbox w'))"

fun service_failure :: "'w env \<Rightarrow> SandboxManager \<Rightarrow> request \<Rightarrow> 'w \<Rightarrow> (exn \<times> 'w) option" where
  "service_failure E m Get_vms w =
     (case SandboxManager_list_all E m w of
        (Inl e, w') \<Rightarrow> Some (e, w')
      | (Inr vms, w') \<Rightarrow> infos_failure E vms w')"
| "service_failure E m (Get_vm_info vm_name) w =
     failure_of (Sandbox_info E (new_Sandbox (api m) vm_name) w)"
| "service_failure E m (Start_sandbox name) w =
     info_failure_after E (SandboxManager_start_sandbox E m name w)"
| "service_failure E m (Restore_snapshot vm_name snapshot_id) w =
     info_failure_after E (SandboxManager_restore E m vm_name snapshot_id w)"
| "service_failure E m (Snapshot vm_name snapshot_id) w =
     failure_of (Sandbox_snapshot E (new_Sandbox (api m) vm_name) snapshot_id w)"
| "service_failure E m (Run_command vm_name cmd) w =
     failure_of (Sandbox_run_cmd E (new_Sandbox (api m) vm_name) cmd w)"
| "service_failure E m (Upload_file vm_name path content) w =
     failure_of (Sandbox_upload_files E (new_Sandbox (api m) vm_name)
                   [[(''path'', path), (''content'', content)]] w)"
| "service_failure E m (Download_file vm_name path) w =
     failure_of (Sandbox_download_files E (new_Sandbox (api m) vm_name) [path] w)"
| "service_failure E m (Destroy_vm vm_name) w =
     failure_of (Sandbox_destroy E (new_Sandbox (api m) vm_name) w)"
| "service_failure E m Destroy_all_vms w = failure_of (SandboxManager_destroy_all E m w)"
| "service_failure E m (Update_vm_state vm_name status) w =
     failure_of (Sandbox_update_state E (new_Sandbox (api m) vm_name) status w)"

section \<open>Two particular services\<close>

text \<open>
  \<open>outage msg dumps\<close> is a service that cannot be reached: every call into the client
  library raises an exception whose text is \<open>msg\<close> and leaves the world as it was.
\<close>

definition outage :: "string \<Rightarrow> (pyval \<Rightarrow> exn + string) \<Rightarrow> 'w env" where
  "outage msg dumps =
     \<lparr> SandboxManager_list_all = (\<lambda>m w. (Inl (Exception msg), w)),
       SandboxManager_start_sandbox = (\<lambda>m name w. (Inl (Exception msg), w)),
       SandboxManager_restore = (\<lambda>m name sid w. (Inl (Exception msg), w)),
       SandboxManager_destroy_all = (\<lambda>m w. (Inl (Exception msg), w)),
       Sandbox_info = (\<lambda>sb w. (Inl (Exception msg), w)),
       Sandbox_snapshot = (\<lambda>sb sid w. (Inl (Exception msg), w)),
       Sandbox_run_cmd = (\<lambda>sb cmd w. (Inl (Exception msg), w)),
       Sandbox_upload_files = (\<lambda>sb files w. (Inl (Exception msg), w)),
       Sandbox_download_files = (\<lambda>sb paths w. (Inl (Exception msg), w)),
       Sandbox_destroy = (\<lambda>sb w. (Inl (Exception msg), w)),
       Sandbox_update_state = (\<lambda>sb status w. (Inl (Exception msg), w)),
       json_dumps = dumps \<rparr>"

text \<open>
  \<open>stub\<close> is a small stand-in service for the examples. Its world counts the calls it
  has served. It knows two VMs, echoes a given snapshot id and invents one for the empty
  id, reports \<^verbatim>\<open>/missing\<close> as absent and \<^verbatim>\<open>/denied\<close> as an error record, and rejects
  every status other than \<^verbatim>\<open>stopped\<close> and \<^verbatim>\<open>paused\<close>. \<open>stub_dumps\<close> stands in for the
  serialiser; its output is not JSON.
\<close>

definition stub_dumps :: "pyval \<Rightarrow> exn + string" where
  "stub_dumps v =
     Inr (case v of
            PyList xs \<Rightarrow> ''list of '' @ replicate (length xs) (CHR ''*'')
          | PyDict kvs \<Rightarrow> ''record of '' @ replicate (length kvs) (CHR ''*'')
          | PyNone \<Rightarrow> ''null''
          | PyBool b \<Rightarrow> ''bool''
          | PyInt i \<Rightarrow> ''int''
          | PyStr t \<Rightarrow> t)"

definition stub :: "nat env" where
  "stub =
     \<lparr> SandboxManager_list_all =
         (\<lambda>m w. (Inr [new_Sandbox (api m) ''vm-a'', new_Sandbox (api m) ''vm-b''], Suc w)),
       SandboxManager_start_sandbox = (\<lambda>m name w. (Inr (new_Sandbox (api m) name), Suc w)),
       SandboxManager_restore = (\<lambda>m name sid w. (Inr (new_Sandbox (api m) name), Suc w)),
       SandboxManager_destroy_all = (\<lambda>m w. (Inr (), Suc w)),
       Sandbox_info =
         (\<lambda>sb w. (Inr (PyDict [(''name'', PyStr (sb_name sb)), (''status'', PyStr ''RUNNING'')]), Suc w)),
       Sandbox_snapshot = (\<lambda>sb sid w. (Inr (if sid = [] then ''snap-1'' else sid), Suc w)),
       Sandbox_run_cmd =
         (\<lambda>sb cmd w.
            (Inr (if cmd = ''false''
                  then [(''output'', []), (''error'', ''exit status 1'')]
                  else [(''output'', cmd), (''error'', [])]), Suc w)),
       Sandbox_upload_files = (\<lambda>sb files w. (Inr (), Suc w)),
       Sandbox_download_files =
         (\<lambda>sb paths w.
            (Inr (if paths = [''/missing''] then []
                  else if paths = [''/denied'']
                  then [[(''path'', ''/denied''), (''error'', ''permission denied'')],
                        [(''path'', ''/other''), (''content'', ''unrelated'')]]
                  else if paths = [''/bare''] then [[(''path'', ''/bare'')]]
                  else map (\<lambda>p. [(''path'', p), (''content'', ''hello'')]) paths), Suc w)),
       Sandbox_destroy = (\<lambda>sb w. (Inr (), Suc w)),
       Sandbox_update_state =
         (\<lambda>sb status w.
            (if status = ''stopped'' \<or> status = ''paused'' then Inr ()
             else Inl (Exception (''invalid status: '' @ status)), Suc w)),
       json_dumps = stub_dumps \<rparr>"

text \<open>
  \<open>flaky\<close> is \<open>stub\<close> with every VM but \<^verbatim>\<open>vm-a\<close> gone: the manager still lists and starts
  them, and the info call on their handles raises.
\<close>

definition flaky :: "nat env" where
  "flaky = stub\<lparr>Sandbox_info :=
     (\<lambda>sb w. if sb_name sb = ''vm-a'' then Sandbox_info stub sb w
              else (Inl (Exception (''VM not found: '' @ sb_name sb)), Suc w))\<rparr>"

definition local_manager :: SandboxManager where
  \<comment> \<open>\<^verbatim>\<open>SandboxManager(DEFAULT_ARRAKIS_URL)\<close>\<close>
  "local_manager = \<lparr>api = APIClient ''http://localhost:7000''\<rparr>"

definition ready :: "'w \<Rightarrow> 'w state" where
  \<comment> \<open>the state after the main block has assigned the global\<close>
  "ready w = \<lparr>sandbox_manager = Some local_manager, world = w\<rparr>"

section \<open>Auxiliary notions for the proofs\<close>

text \<open>
  A computation respects the frame when the state after it differs from the state before
  it in the outside world at most: the global (and anything else a state may carry) is
  as it was.
\<close>

definition frame :: "('w, 'a) prog \<Rightarrow> bool" where
  "frame m = (\<forall>s. snd (m s) = s\<lparr>world := world (snd (m s))\<rparr>)"

section \<open>Basic facts\<close>

lemmas prog_defs = ret_def bnd_def try_except_def call_def pure_call_def sandbox_manager_dot_def

lemmas op_defs = get_vms_def get_vm_info_def start_sandbox_def restore_snapshot_def snapshot_def
  run_command_def upload_file_def download_file_def destroy_vm_def destroy_all_vms_def
  update_vm_state_def

lemmas try_defs = get_vms_try_def get_vm_info_try_def start_sandbox_try_def
  restore_snapshot_try_def snapshot_try_def run_command_try_def upload_file_try_def
  download_file_try_def destroy_vm_try_def destroy_all_vms_try_def update_vm_state_try_def


lemma try_except_catches:
  "m s = (Inl e, s') \<Longrightarrow> try_except m (\<lambda>e. ret (f e)) s = (Inr (f e), s')"
  by (simp add: try_except_def ret_def)

lemma invoke_by_try_suite:
  "fst (invoke E r s) = (case fst (try_suite E r s) of
                          Inl e \<Rightarrow> Inr (error_prefix r @ str e)
                        | Inr out \<Rightarrow> Inr out)"
  by (cases r)
     (simp_all add: op_defs try_except_def ret_def split: prod.splits sum.splits)

lemma invoke_catches:
  "try_suite E r s = (Inl e, s') \<Longrightarrow> invoke E r s = (Inr (error_prefix r @ str e), s')"
  by (cases r) (simp_all add: op_defs try_except_catches)

subsection \<open>A failing call makes the suite raise\<close>

lemma comprehension_infos_failure:
  "infos_failure E vms (world s) = Some (e, w')
   \<Longrightarrow> comprehension (\<lambda>vm. call (Sandbox_info E vm)) vms s = (Inl e, s\<lparr>world := w'\<rparr>)"
proof (induction vms arbitrary: s)
  case Nil
  then show ?case by simp
next
  case (Cons vm vms)
  obtain a w1 where a: "Sandbox_info E vm (world s) = (a, w1)"
    by (cases "Sandbox_info E vm (world s)")
  show ?case
  proof (cases a)
    case (Inl e')
    with a Cons.prems show ?thesis by (simp add: bnd_def call_def)
  next
    case (Inr info)
    with a Cons.prems have "infos_failure E vms (world (s\<lparr>world := w1\<rparr>)) = Some (e, w')"
      by simp
    from Cons.IH [OF this] a Inr show ?thesis
      by (simp add: bnd_def call_def)
  qed
qed

lemma service_failure_raises:
  assumes "sandbox_manager s = Some m" and "service_failure E m r (world s) = Some (e, w')"
  shows "try_suite E r s = (Inl e, s\<lparr>world := w'\<rparr>)"
proof (cases r)
  case Get_vms
  obtain a w1 where a: "SandboxManager_list_all E m (world s) = (a, w1)"
    by (cases "SandboxManager_list_all E m (world s)")
  show ?thesis
  proof (cases a)
    case (Inl e')
    with a assms Get_vms show ?thesis
      by (simp add: get_vms_try_def prog_defs)
  next
    case (Inr vms)
    with a assms Get_vms have "infos_failure E vms (world (s\<lparr>world := w1\<rparr>)) = Some (e, w')"
      by simp
    from comprehension_infos_failure [OF this] a Inr assms(1) Get_vms show ?thesis
      by (simp add: get_vms_try_def prog_defs)
  qed
qed (use assms in \<open>auto simp: try_defs prog_defs Let_def failure_of_def info_failure_after_def
      split: prod.splits sum.splits\<close>)

lemma comprehension_info_fails:
  assumes "k < length vms" and "length ws = Suc k"
    and "\<forall>i<k. \<exists>info. Sandbox_info E (vms ! i) (ws ! i) = (Inr info, ws ! Suc i)"
    and "Sandbox_info E (vms ! k) (ws ! k) = (Inl e, w')"
    and "world s = ws ! 0"
  shows "comprehension (\<lambda>vm. call (Sandbox_info E vm)) vms s = (Inl e, s\<lparr>world := w'\<rparr>)"
  using assms
proof (induction vms arbitrary: k ws s)
  case Nil
  then show ?case by simp
next
  case (Cons vm vms)
  from Cons.prems(2) obtain w0 ws' where ws: "ws = w0 # ws'" and len: "length ws' = k"
    by (cases ws) auto
  have w0: "world s = w0" using Cons.prems(5) ws by simp
  show ?case
  proof (cases k)
    case 0
    with Cons.prems(4) ws w0 show ?thesis
      by (simp add: bnd_def call_def)
  next
    case (Suc j)
    from Cons.prems(3) Suc obtain info where
      head: "Sandbox_info E vm w0 = (Inr info, ws' ! 0)"
      using ws by (auto dest: spec [of _ 0])
    have lt: "j < length vms" using Cons.prems(1) Suc by simp
    have len': "length ws' = Suc j" using len Suc by simp
    have before: "\<forall>i<j. \<exists>info. Sandbox_info E (vms ! i) (ws' ! i) = (Inr info, ws' ! Suc i)"
    proof (intro allI impI)
      fix i assume "i < j"
      then have "Suc i < k" using Suc by simp
      with Cons.prems(3)
      have "\<exists>info. Sandbox_info E ((vm # vms) ! Suc i) (ws ! Suc i) = (Inr info, ws ! Suc (Suc i))"
        by blast
      then show "\<exists>info. Sandbox_info E (vms ! i) (ws' ! i) = (Inr info, ws' ! Suc i)"
        by (simp add: ws)
    qed
    have at: "Sandbox_info E (vms ! j) (ws' ! j) = (Inl e, w')"
      using Cons.prems(4) Suc ws by simp
    have "comprehension (\<lambda>vm. call (Sandbox_info E vm)) vms (s\<lparr>world := ws' ! 0\<rparr>)
            = (Inl e, s\<lparr>world := ws' ! 0\<rparr>\<lparr>world := w'\<rparr>)"
      by (rule Cons.IH [OF lt len' before at]) simp
    moreover have "call (Sandbox_info E vm) s = (Inr info, s\<lparr>world := ws' ! 0\<rparr>)"
      by (simp add: call_def w0 head)
    ultimately show ?thesis
      by (simp add: bnd_def)
  qed
qed

subsection \<open>The frame\<close>

lemma frame_ret: "frame (ret v)"
  by (simp add: frame_def ret_def)

lemma frame_pure_call: "frame (pure_call r)"
  by (simp add: frame_def pure_call_def)

lemma frame_call: "frame (call f)"
  by (simp add: frame_def call_def split: prod.splits)

lemma frame_dot: "frame (sandbox_manager_dot a)"
  by (simp add: frame_def sandbox_manager_dot_def split: option.splits)

lemma frame_index0: "frame (index0 xs)"
  by (simp add: frame_def index0_def ret_def split: list.splits)

lemma frame_subscript: "frame (subscript d k)"
  by (simp add: frame_def subscript_def ret_def split: option.splits)

lemma frame_bnd:
  assumes "frame m" and "\<And>v. frame (f v)"
  shows "frame (bnd m f)"
  unfolding frame_def
proof
  fix s
  obtain r s1 where ms: "m s = (r, s1)" by (cases "m s")
  from assms(1) ms have s1: "s1 = s\<lparr>world := world s1\<rparr>"
    by (auto simp: frame_def dest: spec [of _ s])
  show "snd (bnd m f s) = s\<lparr>world := world (snd (bnd m f s))\<rparr>"
  proof (cases r)
    case (Inl e)
    with ms s1 show ?thesis by (simp add: bnd_def)
  next
    case (Inr v)
    from assms(2) [of v] have "snd (f v s1) = s1\<lparr>world := world (snd (f v s1))\<rparr>"
      by (simp add: frame_def)
    with s1 have "snd (f v s1) = s\<lparr>world := world (snd (f v s1))\<rparr>"
      by (metis state.surjective state.update_convs(2))
    with ms Inr show ?thesis by (simp add: bnd_def)
  qed
qed

lemma frame_try_except:
  assumes "frame m" and "\<And>e. frame (h e)"
  shows "frame (try_except m h)"
  unfolding frame_def
proof
  fix s
  obtain r s1 where ms: "m s = (r, s1)" by (cases "m s")
  from assms(1) ms have s1: "s1 = s\<lparr>world := world s1\<rparr>"
    by (auto simp: frame_def dest: spec [of _ s])
  show "snd (try_except m h s) = s\<lparr>world := world (snd (try_except m h s))\<rparr>"
  proof (cases r)
    case (Inr v)
    with ms s1 show ?thesis by (simp add: try_except_def)
  next
    case (Inl e)
    from assms(2) [of e] have "snd (h e s1) = s1\<lparr>world := world (snd (h e s1))\<rparr>"
      by (simp add: frame_def)
    with s1 have "snd (h e s1) = s\<lparr>world := world (snd (h e s1))\<rparr>"
      by (metis state.surjective state.update_convs(2))
    with ms Inl show ?thesis by (simp add: try_except_def)
  qed
qed

lemma frame_comprehension:
  assumes "\<And>x. frame (f x)"
  shows "frame (comprehension f xs)"
  by (induction xs) (simp_all add: frame_ret frame_bnd assms)

lemmas frame_intros = frame_ret frame_pure_call frame_call frame_dot frame_index0 frame_subscript
  frame_bnd frame_try_except frame_comprehension

lemma frame_invoke: "frame (invoke E r)"
  by (cases r) (auto simp: op_defs try_defs Let_def intro!: frame_intros)

subsection \<open>The calls of the operations on one VM\<close>

lemma per_vm_calls:
  assumes "vm_of r = Some vm_name" and "sandbox_manager t = Some m"
  shows "\<exists>c. snd (world (snd (invoke (spy E) r t))) = snd (world t) @ [c]
             \<and> handle_of c = Some (new_Sandbox (api m) vm_name)"
  using assms
  by (cases r)
    (auto simp: op_defs try_defs Let_def prog_defs spy_def logged_def index0_def subscript_def
      split: prod.splits sum.splits list.splits option.splits)

subsection \<open>The list comprehension of \<open>get_vms\<close>\<close>


section \<open>The claims\<close>

text \<open>
  Claim C1. Whatever exception a call into the client library raises, each of the eleven
  public operations catches it and hands the protocol layer a descriptive string as a
  normal result. For every service, every request and every state: the outcome of the
  operation is a returned string and never a raised exception; an exception \<open>e\<close> raised
  anywhere in the \<^verbatim>\<open>try\<close> suite is turned into the operation's label followed by
  \<^verbatim>\<open>str(e)\<close>, and a value the suite returns is passed on as it is; and when a call into
  the service raises \<open>e\<close> while the request is served, the operation returns its label
  followed by \<^verbatim>\<open>str(e)\<close>, the world being as that call left it.
\<close>

theorem no_fault_propagates:
  "(\<exists>out. fst (invoke E r s) = Inr out)
   \<and> fst (invoke E r s) = (case fst (try_suite E r s) of
                             Inl e \<Rightarrow> Inr (error_prefix r @ str e)
                           | Inr out \<Rightarrow> Inr out)
   \<and> (sandbox_manager s = Some m \<and> service_failure E m r (world s) = Some (e, w')
        \<longrightarrow> invoke E r s = (Inr (error_prefix r @ str e), s\<lparr>world := w'\<rparr>))"
proof (intro conjI impI)
  show eq: "fst (invoke E r s) = (case fst (try_suite E r s) of
                                   Inl e \<Rightarrow> Inr (error_prefix r @ str e)
                                 | Inr out \<Rightarrow> Inr out)"
    by (rule invoke_by_try_suite)
  show "\<exists>out. fst (invoke E r s) = Inr out"
    unfolding eq by (cases "fst (try_suite E r s)") simp_all
next
  assume "sandbox_manager s = Some m \<and> service_failure E m r (world s) = Some (e, w')"
  then have "try_suite E r s = (Inl e, s\<lparr>world := w'\<rparr>)"
    by (simp add: service_failure_raises)
  then show "invoke E r s = (Inr (error_prefix r @ str e), s\<lparr>world := w'\<rparr>)"
    by (rule invoke_catches)
qed

theorem no_fault_propagates_witness:
  "sandbox_manager (ready (0::nat)) = Some local_manager
   \<and> service_failure flaky local_manager Get_vms 0 = Some (Exception ''VM not found: vm-b'', 3)
   \<and> invoke flaky Get_vms (ready 0) = (Inr ''Error listing VMs: VM not found: vm-b'', ready 3)
   \<and> service_failure stub local_manager (Update_vm_state ''vm-a'' ''bogus'') 0
       = Some (Exception ''invalid status: bogus'', 1)
   \<and> invoke stub (Update_vm_state ''vm-a'' ''bogus'') (ready 0)
       = (Inr ''Error updating VM state: invalid status: bogus'', ready 1)"
  using
    no_fault_propagates [of flaky Get_vms "ready (0::nat)" local_manager
      "Exception ''VM not found: vm-b''" 3]
    no_fault_propagates [of stub "Update_vm_state ''vm-a'' ''bogus''" "ready (0::nat)" local_manager
      "Exception ''invalid status: bogus''" 1]
  by (simp add: ready_def stub_def flaky_def failure_of_def new_Sandbox_def local_manager_def)

text \<open>
  Claim C2. When a call into the sandbox service fails, the string the operation returns
  is that operation's fixed error prefix followed by the text of the exception. This is
  stated for every call of every operation, as a condition on the service's answer: the
  single call of the eight one-call operations, the manager call and the info call after
  it of \<open>start_sandbox\<close> and \<open>restore_snapshot\<close>, and for \<open>get_vms\<close> the list-all call and
  the info call on the \<open>k\<close>-th handle after the info calls before it have returned (the
  world moving from \<open>ws ! i\<close> to \<open>ws ! Suc i\<close>).
\<close>

theorem failure_gives_error_prefix:
  assumes "sandbox_manager s = Some m"
  shows
   "(SandboxManager_list_all E m (world s) = (Inl (Exception msg), w')
       \<longrightarrow> get_vms E s = (Inr (''Error listing VMs: '' @ msg), s\<lparr>world := w'\<rparr>))
  \<and> (SandboxManager_list_all E m (world s) = (Inr vms, w1)
       \<and> k < length vms \<and> length ws = Suc k \<and> ws ! 0 = w1
       \<and> (\<forall>i<k. \<exists>info. Sandbox_info E (vms ! i) (ws ! i) = (Inr info, ws ! Suc i))
       \<and> Sandbox_info E (vms ! k) (ws ! k) = (Inl (Exception msg), w')
       \<longrightarrow> get_vms E s = (Inr (''Error listing VMs: '' @ msg), s\<lparr>world := w'\<rparr>))
  \<and> (Sandbox_info E (new_Sandbox (api m) vm_name) (world s) = (Inl (Exception msg), w')
       \<longrightarrow> get_vm_info E vm_name s
             = (Inr (''Error retrieving VM information: '' @ msg), s\<lparr>world := w'\<rparr>))
  \<and> (SandboxManager_start_sandbox E m name (world s) = (Inl (Exception msg), w')
       \<longrightarrow> start_sandbox E name s = (Inr (''Error starting sandbox: '' @ msg), s\<lparr>world := w'\<rparr>))
  \<and> (SandboxManager_start_sandbox E m name (world s) = (Inr sandbox, w1)
       \<and> Sandbox_info E sandbox w1 = (Inl (Exception msg), w')
       \<longrightarrow> start_sandbox E name s = (Inr (''Error starting sandbox: '' @ msg), s\<lparr>world := w'\<rparr>))
  \<and> (SandboxManager_restore E m vm_name snapshot_id (world s) = (Inl (Exception msg), w')
       \<longrightarrow> restore_snapshot E vm_name snapshot_id s
             = (Inr (''Error restoring snapshot: '' @ msg), s\<lparr>world := w'\<rparr>))
  \<and> (SandboxManager_restore E m vm_name snapshot_id (world s) = (Inr sandbox, w1)
       \<and> Sandbox_info E sandbox w1 = (Inl (Exception msg), w')
       \<longrightarrow> restore_snapshot E vm_name snapshot_id s
             = (Inr (''Error restoring snapshot: '' @ msg), s\<lparr>world := w'\<rparr>))
  \<and> (Sandbox_snapshot E (new_Sandbox (api m) vm_name) snapshot_id (world s)
         = (Inl (Exception msg), w')
       \<longrightarrow> snapshot E vm_name snapshot_id s
             = (Inr (''Error creating snapshot: '' @ msg), s\<lparr>world := w'\<rparr>))
  \<and> (Sandbox_run_cmd E (new_Sandbox (api m) vm_name) cmd (world s) = (Inl (Exception msg), w')
       \<longrightarrow> run_command E vm_name cmd s
             = (Inr (''Error running command: '' @ msg), s\<lparr>world := w'\<rparr>))
  \<and> (Sandbox_upload_files E (new_Sandbox (api m) vm_name)
         [[(''path'', path), (''content'', content)]] (world s) = (Inl (Exception msg), w')
       \<longrightarrow> upload_file E vm_name path content s
             = (Inr (''Error uploading file: '' @ msg), s\<lparr>world := w'\<rparr>))
  \<and> (Sandbox_download_files E (new_Sandbox (api m) vm_name) [path] (world s)
         = (Inl (Exception msg), w')
       \<longrightarrow> download_file E vm_name path s
             = (Inr (''Error downloading file: '' @ msg), s\<lparr>world := w'\<rparr>))
  \<and> (Sandbox_destroy E (new_Sandbox (api m) vm_name) (world s) = (Inl (Exception msg), w')
       \<longrightarrow> destroy_vm E vm_name s = (Inr (''Error destroying VM: '' @ msg), s\<lparr>world := w'\<rparr>))
  \<and> (SandboxManager_destroy_all E m (world s) = (Inl (Exception msg), w')
       \<longrightarrow> destroy_all_vms E s = (Inr (''Error destroying VMs: '' @ msg), s\<lparr>world := w'\<rparr>))
  \<and> (Sandbox_update_state E (new_Sandbox (api m) vm_name) status (world s)
         = (Inl (Exception msg), w')
       \<longrightarrow> update_vm_state E vm_name status s
             = (Inr (''Error updating VM state: '' @ msg), s\<lparr>world := w'\<rparr>))"
proof (intro conjI impI)
  assume h: "SandboxManager_list_all E m (world s) = (Inr vms, w1)
       \<and> k < length vms \<and> length ws = Suc k \<and> ws ! 0 = w1
       \<and> (\<forall>i<k. \<exists>info. Sandbox_info E (vms ! i) (ws ! i) = (Inr info, ws ! Suc i))
       \<and> Sandbox_info E (vms ! k) (ws ! k) = (Inl (Exception msg), w')"
  then have "comprehension (\<lambda>vm. call (Sandbox_info E vm)) vms (s\<lparr>world := w1\<rparr>)
               = (Inl (Exception msg), s\<lparr>world := w1\<rparr>\<lparr>world := w'\<rparr>)"
    by (intro comprehension_info_fails [where k = k and ws = ws]) auto
  with h assms show "get_vms E s = (Inr (''Error listing VMs: '' @ msg), s\<lparr>world := w'\<rparr>)"
    by (simp add: get_vms_def get_vms_try_def prog_defs)
qed (use assms in \<open>simp_all add: op_defs try_defs prog_defs Let_def\<close>)

theorem failure_gives_error_prefix_witness:
  "sandbox_manager (ready (0::nat)) = Some local_manager
   \<and> SandboxManager_start_sandbox flaky local_manager ''vm-c'' 0
       = (Inr (new_Sandbox (api local_manager) ''vm-c''), 1)
   \<and> Sandbox_info flaky (new_Sandbox (api local_manager) ''vm-c'') 1
       = (Inl (Exception ''VM not found: vm-c''), 2)
   \<and> start_sandbox flaky ''vm-c'' (ready 0)
       = (Inr ''Error starting sandbox: VM not found: vm-c'', ready 2)
   \<and> get_vms flaky (ready 0) = (Inr ''Error listing VMs: VM not found: vm-b'', ready 3)
   \<and> snapshot (outage ''Connection refused'' stub_dumps) ''vm-a'' [] (ready (0::nat))
       = (Inr ''Error creating snapshot: Connection refused'', ready 0)"
  using
    failure_gives_error_prefix [of "ready (0::nat)" local_manager flaky "''VM not found: vm-c''" 2
      "[]" 1 0 "[1]" "''vm-c''" "''vm-c''" "new_Sandbox (api local_manager) ''vm-c''"]
    failure_gives_error_prefix [of "ready (0::nat)" local_manager flaky "''VM not found: vm-b''" 3
      "[new_Sandbox (api local_manager) ''vm-a'', new_Sandbox (api local_manager) ''vm-b'']"
      1 1 "[1, 2]"]
    failure_gives_error_prefix [of "ready (0::nat)" local_manager
      "outage ''Connection refused'' stub_dumps" "''Connection refused''" 0
      "[]" 0 0 "[0]" "''vm-a''" "''vm-a''" "new_Sandbox (api local_manager) ''vm-a''" "[]"]
  by (simp add: ready_def stub_def flaky_def outage_def new_Sandbox_def local_manager_def)

text \<open>
  Claim C3. \<open>download_file\<close> on a path for which the service returns no file records
  returns the message \<^verbatim>\<open>No file found at path: \<close> followed by the path, as a normal
  result. On a path for which the service returns a non-empty list whose first record
  carries no error (no \<^verbatim>\<open>error\<close> key, or an empty one), it returns the stored content
  of that record, character for character, behind the heading \<^verbatim>\<open>File content:\<close> and a
  line break.
\<close>

theorem download_file_missing_or_present:
  assumes "sandbox_manager s = Some m"
  shows "(Sandbox_download_files E (new_Sandbox (api m) vm_name) [path] (world s) = (Inr [], w')
            \<longrightarrow> download_file E vm_name path s
                  = (Inr (''No file found at path: '' @ path), s\<lparr>world := w'\<rparr>))
       \<and> (Sandbox_download_files E (new_Sandbox (api m) vm_name) [path] (world s)
              = (Inr (file_data # rest), w')
            \<and> map_of file_data ''error'' \<in> {None, Some []}
            \<and> map_of file_data ''content'' = Some content
            \<longrightarrow> download_file E vm_name path s
                  = (Inr (''File content:'' @ NL @ content), s\<lparr>world := w'\<rparr>))"
  using assms
  by (auto simp: download_file_def download_file_try_def prog_defs Let_def index0_def
      subscript_def dict_in_def dict_get_def truthy_def)

theorem download_file_missing_or_present_witness:
  "sandbox_manager (ready (0::nat)) = Some local_manager
   \<and> Sandbox_download_files stub (new_Sandbox (api local_manager) ''vm-a'') [''/missing''] 0 = (Inr [], 1)
   \<and> fst (download_file stub ''vm-a'' ''/missing'' (ready 0)) = Inr ''No file found at path: /missing''
   \<and> fst (download_file stub ''vm-a'' ''/etc/motd'' (ready 0)) = Inr (''File content:'' @ NL @ ''hello'')"
  using
    download_file_missing_or_present [of "ready (0::nat)" local_manager stub "''vm-a''" "''/missing''"
      1 "[]" "[]" "[]"]
    download_file_missing_or_present [of "ready (0::nat)" local_manager stub "''vm-a''" "''/etc/motd''"
      1 "[(''path'', ''/etc/motd''), (''content'', ''hello'')]" "[]" "''hello''"]
  by (simp add: ready_def stub_def)

text \<open>
  Claim C4. For every VM name and every id argument, the empty one and \<^verbatim>\<open>abc\<close> among
  them, \<open>snapshot\<close> returns the success string when the service call succeeds. The string
  ends with the id the service answered, so it echoes the argument exactly when the
  service accepts it verbatim. The one call that reaches the service carries the id
  argument unchanged, also when it is empty: the adapter generates no id of its own.
\<close>

theorem snapshot_forwards_id:
  assumes "sandbox_manager s = Some m" and "sandbox_manager t = Some m"
  shows "(Sandbox_snapshot E (new_Sandbox (api m) vm_name) snapshot_id (world s) = (Inr result, w')
            \<longrightarrow> snapshot E vm_name snapshot_id s
                  = (Inr (''Created snapshot with ID: '' @ result), s\<lparr>world := w'\<rparr>))
       \<and> snd (world (snd (snapshot (spy E) vm_name snapshot_id t)))
            = snd (world t) @ [Call_snapshot (new_Sandbox (api m) vm_name) snapshot_id]"
  using assms
  by (auto simp: snapshot_def snapshot_try_def prog_defs Let_def spy_def logged_def
      split: prod.splits sum.splits)

theorem snapshot_forwards_id_witness:
  "sandbox_manager (ready (0::nat)) = Some local_manager
   \<and> sandbox_manager (ready (0::nat, [] :: client_call list)) = Some local_manager
   \<and> fst (snapshot stub ''vm-a'' ''abc'' (ready 0)) = Inr ''Created snapshot with ID: abc''
   \<and> fst (snapshot stub ''vm-a'' [] (ready 0)) = Inr ''Created snapshot with ID: snap-1''
   \<and> snd (world (snd (snapshot (spy stub) ''vm-a'' [] (ready (0, [])))))
       = [Call_snapshot (new_Sandbox (api local_manager) ''vm-a'') []]"
  using
    snapshot_forwards_id [of "ready (0::nat)" local_manager "ready (0::nat, [])" stub "''vm-a''" "''abc''"
      "''abc''" 1]
    snapshot_forwards_id [of "ready (0::nat)" local_manager "ready (0::nat, [])" stub "''vm-a''" "[]"
      "''snap-1''" 1]
  by (simp add: ready_def stub_def)

text \<open>
  Claim C5. When the service call succeeds, \<open>run_command\<close> returns the combined text of
  the command: the heading \<^verbatim>\<open>Command output:\<close> and the \<^verbatim>\<open>output\<close> field of the result
  record always, and after them the heading \<^verbatim>\<open>Error:\<close> with the \<^verbatim>\<open>error\<close> field if
  and only if that field is not empty. An absent field counts as empty.
\<close>

theorem run_command_output:
  assumes "sandbox_manager s = Some m"
    and "Sandbox_run_cmd E (new_Sandbox (api m) vm_name) cmd (world s) = (Inr result, w')"
    and "output = dict_get result ''output'' []"
    and "error = dict_get result ''error'' []"
  shows "run_command E vm_name cmd s =
           (Inr (''Command output:'' @ NL @ output @
                 (if error = [] then [] else NL @ NL @ ''Error:'' @ NL @ error)), s\<lparr>world := w'\<rparr>)"
  using assms
  by (auto simp: run_command_def run_command_try_def prog_defs Let_def truthy_def)

theorem run_command_output_witness:
  "sandbox_manager (ready (0::nat)) = Some local_manager
   \<and> Sandbox_run_cmd stub (new_Sandbox (api local_manager) ''vm-a'') ''false'' 0
       = (Inr [(''output'', []), (''error'', ''exit status 1'')], 1)
   \<and> fst (run_command stub ''vm-a'' ''false'' (ready 0))
       = Inr (''Command output:'' @ NL @ NL @ NL @ ''Error:'' @ NL @ ''exit status 1'')
   \<and> fst (run_command stub ''vm-a'' ''uname'' (ready 0)) = Inr (''Command output:'' @ NL @ ''uname'')"
  using
    run_command_output [of "ready (0::nat)" local_manager stub "''vm-a''" "''false''"
      "[(''output'', []), (''error'', ''exit status 1'')]" 1 "[]" "''exit status 1''"]
    run_command_output [of "ready (0::nat)" local_manager stub "''vm-a''" "''uname''"
      "[(''output'', ''uname''), (''error'', [])]" 1 "''uname''" "[]"]
  by (simp add: ready_def stub_def dict_get_def)

text \<open>
  Claim C6. \<open>update_vm_state\<close> validates nothing locally. For every status string, also
  one other than \<^verbatim>\<open>stopped\<close> and \<^verbatim>\<open>paused\<close>, the one call that reaches the service
  carries the status as given, and the result is decided by the service's answer alone:
  the confirmation when the service accepts, and the operation's error string with the
  text of the service's exception when it rejects. In both cases the result is a
  returned string.
\<close>

theorem update_vm_state_no_validation:
  assumes "sandbox_manager s = Some m" and "sandbox_manager t = Some m"
  shows "update_vm_state E vm_name status s =
           (case Sandbox_update_state E (new_Sandbox (api m) vm_name) status (world s) of
              (Inl e, w') \<Rightarrow> (Inr (''Error updating VM state: '' @ str e), s\<lparr>world := w'\<rparr>)
            | (Inr u, w') \<Rightarrow>
                (Inr (''Successfully updated VM '' @ vm_name @ '' state to '' @ status),
                 s\<lparr>world := w'\<rparr>))
       \<and> snd (world (snd (update_vm_state (spy E) vm_name status t)))
            = snd (world t) @ [Call_update_state (new_Sandbox (api m) vm_name) status]"
  using assms
  by (auto simp: update_vm_state_def update_vm_state_try_def prog_defs Let_def spy_def logged_def
      split: prod.splits sum.splits)

theorem update_vm_state_no_validation_witness:
  "sandbox_manager (ready (0::nat)) = Some local_manager
   \<and> sandbox_manager (ready (0::nat, [] :: client_call list)) = Some local_manager
   \<and> fst (update_vm_state stub ''vm-a'' ''bogus'' (ready 0))
       = Inr ''Error updating VM state: invalid status: bogus''
   \<and> snd (world (snd (update_vm_state (spy stub) ''vm-a'' ''bogus'' (ready (0, [])))))
       = [Call_update_state (new_Sandbox (api local_manager) ''vm-a'') ''bogus'']"
  using
    update_vm_state_no_validation [of "ready (0::nat)" local_manager "ready (0::nat, [])" stub
      "''vm-a''" "''bogus''"]
  by (simp add: ready_def stub_def)



text \<open>
  Claim C8. No operation changes the adapter's cross-call state: the state after an
  operation differs from the state before it in the outside world at most, so the
  sandbox-manager reference is the same before and after, and nothing a call built (a
  handle on one VM) is kept. Each of the seven operations on one VM, once the manager
  is set, makes its one call into the client library on a handle built in that
  invocation from the manager's API client and the operation's own name argument.
\<close>

theorem handles_are_fresh:
  "snd (invoke E r s) = s\<lparr>world := world (snd (invoke E r s))\<rparr>
   \<and> sandbox_manager (snd (invoke E r s)) = sandbox_manager s
   \<and> (vm_of r = Some vm_name \<and> sandbox_manager t = Some m \<longrightarrow>
        (\<exists>c. snd (world (snd (invoke (spy E) r t))) = snd (world t) @ [c]
             \<and> handle_of c = Some (new_Sandbox (api m) vm_name)))"
proof -
  have eq: "snd (invoke E r s) = s\<lparr>world := world (snd (invoke E r s))\<rparr>"
    using frame_invoke [of E r] by (simp add: frame_def)
  have "sandbox_manager (s\<lparr>world := world (snd (invoke E r s))\<rparr>) = sandbox_manager s"
    by simp
  with eq have "sandbox_manager (snd (invoke E r s)) = sandbox_manager s"
    by simp
  with eq per_vm_calls [of r vm_name t m E] show ?thesis
    by blast
qed

theorem handles_are_fresh_witness:
  "vm_of (Run_command ''vm-b'' ''ls'') = Some ''vm-b''
   \<and> sandbox_manager (ready (0::nat, [] :: client_call list)) = Some local_manager
   \<and> snd (invoke stub (Run_command ''vm-b'' ''ls'') (ready 0)) = ready 1
   \<and> (\<exists>c. snd (world (snd (invoke (spy stub) (Run_command ''vm-b'' ''ls'') (ready (0, [])))))
             = [c]
          \<and> handle_of c = Some (new_Sandbox (api local_manager) ''vm-b''))"
  using
    handles_are_fresh [of stub "Run_command ''vm-b'' ''ls''" "ready (0::nat)" "''vm-b''"
      "ready (0::nat, [])" local_manager]
  by (simp add: ready_def stub_def run_command_def run_command_try_def prog_defs Let_def
      dict_get_def truthy_def)

text \<open>
  Claim C9. Of a non-empty list returned by the service, \<open>download_file\<close> looks at the
  first record only. If that record has a non-empty \<^verbatim>\<open>error\<close> field, the operation
  returns \<^verbatim>\<open>Error downloading file: \<close> followed by that error and no content. If it has no
  error and no \<^verbatim>\<open>content\<close> key, the content is the empty string. The records after the
  first have no part in the result.
\<close>

theorem download_file_first_record:
  assumes "sandbox_manager s = Some m"
    and "Sandbox_download_files E (new_Sandbox (api m) vm_name) [path] (world s)
           = (Inr (file_data # rest), w')"
  shows "(map_of file_data ''error'' = Some err \<and> err \<noteq> []
            \<longrightarrow> download_file E vm_name path s
                  = (Inr (''Error downloading file: '' @ err), s\<lparr>world := w'\<rparr>))
       \<and> (map_of file_data ''error'' \<in> {None, Some []} \<and> map_of file_data ''content'' = None
            \<longrightarrow> download_file E vm_name path s = (Inr (''File content:'' @ NL), s\<lparr>world := w'\<rparr>))
       \<and> download_file E vm_name path s =
           (Inr (if dict_get file_data ''error'' [] \<noteq> []
                 then ''Error downloading file: '' @ dict_get file_data ''error'' []
                 else ''File content:'' @ NL @ dict_get file_data ''content'' []), s\<lparr>world := w'\<rparr>)"
  using assms
  by (auto simp: download_file_def download_file_try_def prog_defs Let_def index0_def
      subscript_def dict_in_def dict_get_def truthy_def split: option.splits)

theorem download_file_first_record_witness:
  "sandbox_manager (ready (0::nat)) = Some local_manager
   \<and> Sandbox_download_files stub (new_Sandbox (api local_manager) ''vm-a'') [''/denied''] 0
       = (Inr [[(''path'', ''/denied''), (''error'', ''permission denied'')],
               [(''path'', ''/other''), (''content'', ''unrelated'')]], 1)
   \<and> fst (download_file stub ''vm-a'' ''/denied'' (ready 0))
       = Inr ''Error downloading file: permission denied''
   \<and> fst (download_file stub ''vm-a'' ''/bare'' (ready 0)) = Inr (''File content:'' @ NL)"
  using
    download_file_first_record [of "ready (0::nat)" local_manager stub "''vm-a''" "''/denied''"
      "[(''path'', ''/denied''), (''error'', ''permission denied'')]"
      "[[(''path'', ''/other''), (''content'', ''unrelated'')]]" 1 "''permission denied''"]
    download_file_first_record [of "ready (0::nat)" local_manager stub "''vm-a''" "''/bare''"
      "[(''path'', ''/bare'')]" "[]" 1 "[]"]
  by (simp add: ready_def stub_def dict_get_def)

text \<open>
  Claim C10. \<open>upload_file\<close> forwards exactly one file record: the one call that reaches
  the service is the upload call with a list of one element, the record that pairs
  \<^verbatim>\<open>path\<close> with the given path and \<^verbatim>\<open>content\<close> with the given content, both as given.
  When that call succeeds, the confirmation returned is \<^verbatim>\<open>Successfully uploaded file to \<close>
  followed by the path; the name of the VM is no part of it.
\<close>

theorem upload_file_one_record:
  assumes "sandbox_manager s = Some m" and "sandbox_manager t = Some m"
  shows "(Sandbox_upload_files E (new_Sandbox (api m) vm_name)
              [[(''path'', path), (''content'', content)]] (world s) = (Inr u, w')
            \<longrightarrow> upload_file E vm_name path content s
                  = (Inr (''Successfully uploaded file to '' @ path), s\<lparr>world := w'\<rparr>))
       \<and> snd (world (snd (upload_file (spy E) vm_name path content t)))
            = snd (world t) @ [Call_upload_files (new_Sandbox (api m) vm_name)
                                 [[(''path'', path), (''content'', content)]]]"
  using assms
  by (auto simp: upload_file_def upload_file_try_def prog_defs Let_def spy_def logged_def
      split: prod.splits sum.splits)

theorem upload_file_one_record_witness:
  "sandbox_manager (ready (0::nat)) = Some local_manager
   \<and> sandbox_manager (ready (0::nat, [] :: client_call list)) = Some local_manager
   \<and> fst (upload_file stub ''vm-a'' ''/tmp/x'' ''data'' (ready 0))
       = Inr ''Successfully uploaded file to /tmp/x''
   \<and> snd (world (snd (upload_file (spy stub) ''vm-a'' ''/tmp/x'' ''data'' (ready (0, [])))))
       = [Call_upload_files (new_Sandbox (api local_manager) ''vm-a'')
            [[(''path'', ''/tmp/x''), (''content'', ''data'')]]]"
  using
    upload_file_one_record [of "ready (0::nat)" local_manager "ready (0::nat, [])" stub "''vm-a''"
      "''/tmp/x''" "''data''" "()" 1]
  by (simp add: ready_def stub_def)

end
